theory Spec2Isabelle
  imports Main "HOL-Library.Word"
begin

section \<open>The dispatch layer of the trivialt TFTP server (server.go)\<close>

text \<open>
  A shallow embedding of \<^verbatim>\<open>server.go\<close>. The Go code mutates a \<^verbatim>\<open>*Server\<close> and talks to
  sockets and channels; here a function takes the server and a \<open>world\<close> (channels, the
  datagrams written, the sockets opened and closed) and returns them updated. A nil
  dereference is the value \<open>Panic\<close> (\<open>Panicked\<close>), a goroutine parked on a full channel
  is \<open>Blocked\<close>. A \<^verbatim>\<open>go f(x)\<close> statement of the receive loop is recorded as a spawned
  \<open>task\<close>; the task's body is the function of that name, run on its own.
  Calls to the logger change nothing else and are left out.
\<close>

subsection \<open>Data\<close>

type_synonym byte = "8 word"
type_synonym bytes = "byte list"

text \<open>
  A remote endpoint. The registry uses only \<^verbatim>\<open>addr.String()\<close> of an address, so an
  endpoint is represented by that text.
\<close>
type_synonym addr = string

text \<open>A \<^verbatim>\<open>*net.UDPConn\<close> that is not nil; nil is \<open>None\<close> of \<open>UDPConn option\<close>.\<close>
type_synonym UDPConn = nat

datatype error =
    ErrInvalidNetwork
  | ErrInvalidRetransmit
  | ErrNoRegisteredHandlers
  | ErrAddressNotAvailable
  | Wrapped error string
  | Other string

text \<open>
  Modelled from the spec: \<^verbatim>\<open>wrapError\<close> is not in server.go. It wraps an error with a
  message; the wrapped error stays recognisable.
\<close>
definition wrapError :: "error \<Rightarrow> string \<Rightarrow> error" where
  "wrapError e msg = Wrapped e msg"

datatype ErrCode = ErrCodeIllegalOperation | ErrCodeUnknownTransferID

text \<open>
  Modelled from the spec: the \<^verbatim>\<open>datagram\<close> type is not in server.go. A datagram is either
  the raw bytes received (\<^verbatim>\<open>setBytes\<close>) or an error reply built by \<^verbatim>\<open>writeError\<close> from a
  code and a message; its wire encoding is left to the datagram collaborator.
\<close>
datatype datagram = Raw bytes | ErrorDatagram ErrCode string

definition setBytes :: "bytes \<Rightarrow> datagram" where
  "setBytes b = Raw b"

definition writeError :: "ErrCode \<Rightarrow> string \<Rightarrow> datagram" where
  "writeError code msg = ErrorDatagram code msg"

datatype outcome = Returned | Panicked | Blocked

datatype 'a res = Ok 'a | Err error | Panic

text \<open>
  A Go channel of byte slices: \<open>chan_cap\<close> is its capacity, \<open>chan_buf\<close> the values
  buffered, and \<open>chan_sendq\<close> the values of the senders parked on it, in the order they arrived.
\<close>
record channel =
  chan_cap :: nat
  chan_buf :: "bytes list"
  chan_sendq :: "bytes list"

text \<open>What a transfer reads from and writes to: a socket of its own, or the shared
  socket with the channel the registry holds for it.\<close>
datatype netchan = Dedicated nat | Shared "UDPConn option" nat

text \<open>
  Modelled from the spec: the \<^verbatim>\<open>conn\<close> struct is not in server.go. It holds the remote
  endpoint, the transfer mode, the network channel, the request datagram (\<^verbatim>\<open>rx\<close>), the
  retransmission limit and the error a failed setup left (\<^verbatim>\<open>err\<close>).
\<close>
record conn =
  remote :: addr
  mode :: string
  netc :: netchan
  rx :: datagram
  retransmit :: int
  err :: "error option"

text \<open>
  What lies outside the \<^verbatim>\<open>Server\<close> struct: \<open>writes\<close> are the \<^verbatim>\<open>WriteTo\<close> calls made on the
  server's socket, in order; \<open>chans\<close> is the heap of channels and \<open>next_chan\<close> the next
  free cell; \<open>socks\<close> are the dedicated sockets opened and \<open>closed\<close> the network
  channels closed, in order.
\<close>
record world =
  writes :: "(datagram \<times> addr) list"
  chans :: "nat \<Rightarrow> channel"
  next_chan :: nat
  socks :: "netchan list"
  closed :: "netchan list"

datatype readRequest = ReadRequest conn string
datatype writeRequest = WriteRequest conn string

text \<open>A handler is code of the user: it may change the world in any way, and it
  returns, panics, or never returns (\<open>Blocked\<close>).\<close>
type_synonym ReadHandler = "readRequest \<Rightarrow> world \<Rightarrow> outcome \<times> world"
type_synonym WriteHandler = "writeRequest \<Rightarrow> world \<Rightarrow> outcome \<times> world"

record connManager =
  reqMap :: "string \<rightharpoonup> nat"

record Server =
  net :: string
  addrStr :: string
  conn :: "UDPConn option"
  close :: bool
  singlePort :: bool
  mgr :: "connManager option"
  retransmit :: int
  rh :: "ReadHandler option"
  wh :: "WriteHandler option"

type_synonym closer_fn = "Server \<Rightarrow> world \<Rightarrow> error option res \<times> Server \<times> world"

text \<open>
  The collaborators of one dispatch that server.go calls and does not define: the
  datagram's \<^verbatim>\<open>validate\<close>, \<^verbatim>\<open>mode\<close> and \<^verbatim>\<open>filename\<close>, the connection's \<^verbatim>\<open>readSetup\<close>, and
  the errors the network returns from \<^verbatim>\<open>WriteTo\<close>, from opening a socket and from
  \<^verbatim>\<open>Close\<close>.
\<close>
record env =
  validate :: "datagram \<Rightarrow> error option"
  dg_mode :: "datagram \<Rightarrow> string"
  filename :: "datagram \<Rightarrow> string"
  readSetup :: "conn \<Rightarrow> world \<Rightarrow> error option \<times> world"
  WriteTo_err :: "error option"
  newConn_err :: "error option"
  Close_err :: "error option"

subsection \<open>connManager\<close>

text \<open>\<^verbatim>\<open>make(chan []byte, n)\<close>: a new, empty channel in the next free cell of the heap.\<close>
definition make_chan :: "nat \<Rightarrow> world \<Rightarrow> nat \<times> world" where
  "make_chan n w =
     (next_chan w,
      w\<lparr>chans := (chans w)(next_chan w := \<lparr>chan_cap = n, chan_buf = [], chan_sendq = []\<rparr>),
        next_chan := Suc (next_chan w)\<rparr>)"

text \<open>
  \<^verbatim>\<open>ch <- v\<close>: with room in the buffer the value is buffered and the sender goes on; with
  the buffer full the sender parks on the channel with its value, until a receiver
  makes room.
\<close>
definition chan_send :: "nat \<Rightarrow> bytes \<Rightarrow> world \<Rightarrow> outcome \<times> world" where
  "chan_send ch v w =
     (let c = chans w ch
      in if length (chan_buf c) < chan_cap c
         then (Returned, w\<lparr>chans := (chans w)(ch := c\<lparr>chan_buf := chan_buf c @ [v]\<rparr>)\<rparr>)
         else (Blocked, w\<lparr>chans := (chans w)(ch := c\<lparr>chan_sendq := chan_sendq c @ [v]\<rparr>)\<rparr>))"

definition New :: "connManager \<Rightarrow> addr \<Rightarrow> world \<Rightarrow> nat \<times> connManager \<times> world" where
  "New m addr w =
     (let (reqChan, w') = make_chan 64 w
      in (reqChan, m\<lparr>reqMap := (reqMap m)(addr \<mapsto> reqChan)\<rparr>, w'))"

text \<open>The pair \<^verbatim>\<open>(reqChan, ok)\<close> of the source is an option: \<open>Some reqChan\<close> is found.\<close>
definition Get :: "connManager \<Rightarrow> addr \<Rightarrow> nat option" where
  "Get m addr = reqMap m addr"

definition Remove :: "connManager \<Rightarrow> addr \<Rightarrow> connManager" where
  "Remove m addr = m\<lparr>reqMap := (reqMap m)(addr := None)\<rparr>"

text \<open>A sequence of calls on one registry, in the order the lock admits them.\<close>
datatype mgr_op = OpNew addr | OpRemove addr

fun run_ops :: "mgr_op list \<Rightarrow> connManager \<Rightarrow> world \<Rightarrow> connManager \<times> world" where
  "run_ops [] m w = (m, w)"
| "run_ops (OpNew a # ops) m w = (case New m a w of (_, m', w') \<Rightarrow> run_ops ops m' w')"
| "run_ops (OpRemove a # ops) m w = run_ops ops (Remove m a) w"

subsection \<open>NewServer and its options\<close>

type_synonym ServerOpt = "Server \<Rightarrow> error + Server"

text \<open>The defaults the doc comments of \<^verbatim>\<open>ServerNet\<close> and \<^verbatim>\<open>ServerRetransmit\<close> give.\<close>
definition defaultUDPNet :: string where
  "defaultUDPNet = ''udp''"

definition defaultRetransmit :: int where
  "defaultRetransmit = 10"

definition ServerNet :: "string \<Rightarrow> ServerOpt" where
  "ServerNet n = (\<lambda>s.
     if n \<noteq> ''udp'' \<and> n \<noteq> ''udp4'' \<and> n \<noteq> ''udp6'' then Inl ErrInvalidNetwork
     else Inr (s\<lparr>net := n\<rparr>))"

definition ServerRetransmit :: "int \<Rightarrow> ServerOpt" where
  "ServerRetransmit i = (\<lambda>s.
     if i < 0 then Inl ErrInvalidRetransmit
     else Inr (s\<lparr>Server.retransmit := i\<rparr>))"

definition ServerSinglePort :: "bool \<Rightarrow> ServerOpt" where
  "ServerSinglePort enable = (\<lambda>s.
     if enable then Inr (s\<lparr>singlePort := True, mgr := Some \<lparr>reqMap = Map.empty\<rparr>\<rparr>)
     else Inr s)"

fun apply_opts :: "ServerOpt list \<Rightarrow> Server \<Rightarrow> error + Server" where
  "apply_opts [] s = Inr s"
| "apply_opts (opt # opts) s =
     (case opt s of Inl e \<Rightarrow> Inl e | Inr s' \<Rightarrow> apply_opts opts s')"

definition NewServer :: "string \<Rightarrow> ServerOpt list \<Rightarrow> error + Server" where
  "NewServer a opts =
     apply_opts opts
       \<lparr>net = defaultUDPNet, addrStr = a, conn = None, close = False, singlePort = False,
        mgr = None, retransmit = defaultRetransmit, rh = None, wh = None\<rparr>"

text \<open>The three options of the package, as a caller writes them.\<close>
datatype opt_spec = OptNet string | OptRetransmit int | OptSinglePort bool

fun mk_opt :: "opt_spec \<Rightarrow> ServerOpt" where
  "mk_opt (OptNet n) = ServerNet n"
| "mk_opt (OptRetransmit i) = ServerRetransmit i"
| "mk_opt (OptSinglePort b) = ServerSinglePort b"

fun invalid_opt :: "opt_spec \<Rightarrow> bool" where
  "invalid_opt (OptNet n) = (n \<notin> {''udp'', ''udp4'', ''udp6''})"
| "invalid_opt (OptRetransmit i) = (i < 0)"
| "invalid_opt (OptSinglePort b) = False"

subsection \<open>The network and the connection, as server.go uses them\<close>

text \<open>
  \<^verbatim>\<open>s.conn.WriteTo(b, addr)\<close>: a method of a nil \<^verbatim>\<open>*net.UDPConn\<close> faults; otherwise the call
  is made, and \<open>e\<close> is the error the network returns for it.
\<close>
definition WriteTo ::
  "UDPConn option \<Rightarrow> datagram \<Rightarrow> addr \<Rightarrow> error option \<Rightarrow> world \<Rightarrow> (error option \<times> world) res" where
  "WriteTo c dg a e w =
     (case c of None \<Rightarrow> Panic | Some _ \<Rightarrow> Ok (e, w\<lparr>writes := writes w @ [(dg, a)]\<rparr>))"

text \<open>
  Modelled from the spec: \<^verbatim>\<open>newSinglePortConn\<close> is not in server.go. It builds the
  virtual connection over the shared socket and the channel registered for the remote
  endpoint; the other fields have Go's zero values.
\<close>
definition newSinglePortConn :: "addr \<Rightarrow> string \<Rightarrow> UDPConn option \<Rightarrow> nat \<Rightarrow> conn" where
  "newSinglePortConn a m sc reqChan =
     \<lparr>remote = a, mode = m, netc = Shared sc reqChan, rx = Raw [], retransmit = 0, err = None\<rparr>"

text \<open>
  Modelled from the spec: the package's function \<^verbatim>\<open>newConn(net, mode, addr)\<close> is not in
  server.go. It opens a dedicated socket for the transfer, or fails with the error \<open>e\<close>
  of the network and opens nothing.
\<close>
definition newConn_pkg ::
  "string \<Rightarrow> string \<Rightarrow> addr \<Rightarrow> error option \<Rightarrow> world \<Rightarrow> (error + conn) \<times> world" where
  "newConn_pkg n m a e w =
     (case e of
        Some x \<Rightarrow> (Inl x, w)
      | None \<Rightarrow>
          (let nc = Dedicated (length (socks w))
           in (Inr \<lparr>remote = a, mode = m, netc = nc, rx = Raw [], retransmit = 0, err = None\<rparr>,
               w\<lparr>socks := socks w @ [nc]\<rparr>)))"

text \<open>
  Modelled from the spec: the connection's \<^verbatim>\<open>Close\<close> is not in server.go. It closes the
  underlying network channel and returns the error \<open>e\<close> of the network, if any.
\<close>
definition conn_Close :: "conn \<Rightarrow> error option \<Rightarrow> world \<Rightarrow> error option \<times> world" where
  "conn_Close c e w = (e, w\<lparr>closed := closed w @ [netc c]\<rparr>)"

text \<open>
  Modelled from the spec: \<^verbatim>\<open>errorDefer\<close> is not in server.go. It calls the function it is
  given and logs the error that returns, if any.
\<close>
definition errorDefer :: "closer_fn \<Rightarrow> Server \<Rightarrow> world \<Rightarrow> outcome \<times> Server \<times> world" where
  "errorDefer fn s w =
     (case fn s w of
        (Panic, s', w') \<Rightarrow> (Panicked, s', w')
      | (_, s', w') \<Rightarrow> (Returned, s', w'))"

subsection \<open>newConn and the closer\<close>

text \<open>
  The closure \<^verbatim>\<open>closer\<close> of \<^verbatim>\<open>newConn\<close>. It holds the pointers \<^verbatim>\<open>c\<close> and \<^verbatim>\<open>s\<close> and the address, and
  reads the server as it is when the closure is called.
\<close>
definition closer :: "env \<Rightarrow> conn \<Rightarrow> addr \<Rightarrow> closer_fn" where
  "closer ev c a = (\<lambda>s w.
     (let (e, w') = conn_Close c (Close_err ev) w
      in if singlePort s
         then (case mgr s of
                 None \<Rightarrow> (Panic, s, w')
               | Some m \<Rightarrow> (Ok e, s\<lparr>mgr := Some (Remove m a)\<rparr>, w'))
         else (Ok e, s, w')))"

definition newConn ::
  "env \<Rightarrow> Server \<Rightarrow> addr \<Rightarrow> bytes \<Rightarrow> world \<Rightarrow> (conn \<times> closer_fn) res \<times> Server \<times> world" where
  "newConn ev s a b w =
     (let dg = setBytes b
      in case validate ev dg of
           Some e \<Rightarrow> (Err e, s, w)
         | None \<Rightarrow>
             if singlePort s then
               (case mgr s of
                  None \<Rightarrow> (Panic, s, w)
                | Some m \<Rightarrow>
                    (let (reqChan, m', w') = New m a w;
                         c = (newSinglePortConn a (dg_mode ev dg) (conn s) reqChan)
                               \<lparr>rx := dg, conn.retransmit := Server.retransmit s\<rparr>
                     in (Ok (c, closer ev c a), s\<lparr>mgr := Some m'\<rparr>, w')))
             else
               (case newConn_pkg (net s) (dg_mode ev dg) a (newConn_err ev) w of
                  (Inl e, w') \<Rightarrow> (Err e, s, w')
                | (Inr c0, w') \<Rightarrow>
                    (let c = c0\<lparr>rx := dg, conn.retransmit := Server.retransmit s\<rparr>
                     in (Ok (c, closer ev c a), s, w'))))"

subsection \<open>The three dispatch tasks\<close>

text \<open>
  The deferred call runs when the handler returns and when it panics; a panic goes on
  after it. A handler that never returns is \<open>Blocked\<close>, and nothing runs after it.
\<close>
definition run_deferred ::
  "closer_fn \<Rightarrow> outcome \<Rightarrow> Server \<Rightarrow> world \<Rightarrow> outcome \<times> Server \<times> world" where
  "run_deferred cl out s w =
     (if out = Blocked then (Blocked, s, w)
      else case errorDefer cl s w of
             (d, s', w') \<Rightarrow> (if out = Panicked then Panicked else d, s', w'))"

definition dispatchReadRequest ::
  "env \<Rightarrow> Server \<Rightarrow> addr \<Rightarrow> bytes \<Rightarrow> world \<Rightarrow> outcome \<times> Server \<times> world" where
  "dispatchReadRequest ev s a b w =
     (case rh s of
        None \<Rightarrow>
          (let e = writeError ErrCodeIllegalOperation ''Server does not support read requests.''
           in case WriteTo (conn s) e a (WriteTo_err ev) w of
                Ok (_, w') \<Rightarrow> (Returned, s, w')
              | _ \<Rightarrow> (Panicked, s, w))
      | Some h \<Rightarrow>
          (case newConn ev s a b w of
             (Ok (c, cl), s1, w1) \<Rightarrow>
               (let r = ReadRequest c (filename ev (rx c));
                    (out, w2) = h r w1
                in run_deferred cl out s1 w2)
           | (Err e, s1, w1) \<Rightarrow> (Returned, s1, w1)
           | (Panic, s1, w1) \<Rightarrow> (Panicked, s1, w1)))"

text \<open>
  \<^verbatim>\<open>w\<close> holds the pointer \<^verbatim>\<open>c\<close>, so the handler sees the \<^verbatim>\<open>c.err\<close> that was set after \<^verbatim>\<open>w\<close> was
  built: the request is built here from the connection as it is after the setup.
\<close>
definition dispatchWriteRequest ::
  "env \<Rightarrow> Server \<Rightarrow> addr \<Rightarrow> bytes \<Rightarrow> world \<Rightarrow> outcome \<times> Server \<times> world" where
  "dispatchWriteRequest ev s a b w =
     (case wh s of
        None \<Rightarrow>
          (let e = writeError ErrCodeIllegalOperation ''Server does not support write requests.''
           in case WriteTo (conn s) e a (WriteTo_err ev) w of
                Ok (_, w') \<Rightarrow> (Returned, s, w')
              | _ \<Rightarrow> (Panicked, s, w))
      | Some h \<Rightarrow>
          (case newConn ev s a b w of
             (Ok (c, cl), s1, w1) \<Rightarrow>
               (let (se, w1') = readSetup ev c w1;
                    c' = (case se of Some e \<Rightarrow> c\<lparr>err := Some e\<rparr> | None \<Rightarrow> c);
                    r = WriteRequest c' (filename ev (rx c));
                    (out, w2) = h r w1'
                in run_deferred cl out s1 w2)
           | (Err e, s1, w1) \<Rightarrow> (Returned, s1, w1)
           | (Panic, s1, w1) \<Rightarrow> (Panicked, s1, w1)))"

definition demuxToConn :: "env \<Rightarrow> Server \<Rightarrow> addr \<Rightarrow> bytes \<Rightarrow> world \<Rightarrow> outcome \<times> world" where
  "demuxToConn ev s a b w =
     (case (if singlePort s
            then (case mgr s of None \<Rightarrow> Panic | Some m \<Rightarrow> Ok (Get m a))
            else Ok None) of
        Ok (Some reqChan) \<Rightarrow> chan_send reqChan b w
      | Ok None \<Rightarrow>
          (let dg = writeError ErrCodeUnknownTransferID ''Unexpected TID''
           in case WriteTo (conn s) dg a (WriteTo_err ev) w of
                Ok (_, w') \<Rightarrow> (Returned, w')
              | _ \<Rightarrow> (Panicked, w))
      | _ \<Rightarrow> (Panicked, w))"

subsection \<open>Close and the receive loop\<close>

text \<open>\<open>e\<close> is what the socket's own \<^verbatim>\<open>Close\<close> returns. The flag is set before the socket
  is touched.\<close>
definition Close :: "error option \<Rightarrow> Server \<Rightarrow> error option res \<times> Server" where
  "Close e s =
     (let s' = s\<lparr>close := True\<rparr>
      in case conn s' of None \<Rightarrow> (Panic, s') | Some _ \<Rightarrow> (Ok e, s'))"

datatype task =
    DispatchReadRequest addr bytes
  | DispatchWriteRequest addr bytes
  | DemuxToConn addr bytes

text \<open>
  What happens while \<^verbatim>\<open>Serve\<close> runs: a read of the socket returns a datagram (its payload
  and sender) or an error, or another goroutine calls \<^verbatim>\<open>Close\<close>.
\<close>
datatype event = Datagram bytes addr | ReadError error | CloseCalled "error option"

datatype serve_result = ServeReturned "error option" | ServePanicked | ServeWaiting

text \<open>
  \<^verbatim>\<open>conn.ReadFromUDP(buf)\<close> on a datagram with payload \<open>p\<close>: the payload is copied to the
  front of the buffer, as much as fits, the rest of the buffer stays, and the number of
  bytes copied is returned.
\<close>
definition ReadFromUDP :: "bytes \<Rightarrow> bytes \<Rightarrow> nat \<times> bytes" where
  "ReadFromUDP bf p = (let n = min (length p) (length bf) in (n, take n p @ drop n bf))"

text \<open>The three cases of the \<^verbatim>\<open>switch\<close>, on the byte it inspects.\<close>
definition switch_opcode :: "byte \<Rightarrow> addr \<Rightarrow> bytes \<Rightarrow> task" where
  "switch_opcode x a b =
     (if x = 1 then DispatchReadRequest a b
      else if x = 2 then DispatchWriteRequest a b
      else DemuxToConn a b)"

text \<open>\<^verbatim>\<open>switch buf[1]\<close>: an index out of range faults.\<close>
definition classify :: "bytes \<Rightarrow> addr \<Rightarrow> bytes \<Rightarrow> task option" where
  "classify bf a b = (if 1 < length bf then Some (switch_opcode (bf ! 1) a b) else None)"

text \<open>
  The \<^verbatim>\<open>for\<close> loop of \<^verbatim>\<open>Serve\<close>, over the events to come. With no event left the loop waits
  in \<^verbatim>\<open>ReadFromUDP\<close>. The tasks are the \<^verbatim>\<open>go\<close> statements executed, in order.
\<close>
fun Serve_loop :: "Server \<Rightarrow> bytes \<Rightarrow> event list \<Rightarrow> serve_result \<times> Server \<times> task list" where
  "Serve_loop s bf [] = (ServeWaiting, s, [])"
| "Serve_loop s bf (CloseCalled e # evs) = Serve_loop (snd (Close e s)) bf evs"
| "Serve_loop s bf (ReadError e # evs) =
     (if close s then (ServeReturned None, s, [])
      else (ServeReturned (Some (wrapError e ''reading from conn'')), s, []))"
| "Serve_loop s bf (Datagram p a # evs) =
     (let (numBytes, bf') = ReadFromUDP bf p;
          b = take numBytes bf'
      in case classify bf' a b of
           None \<Rightarrow> (ServePanicked, s, [])
         | Some t \<Rightarrow> (case Serve_loop s bf' evs of (r, s', ts) \<Rightarrow> (r, s', t # ts)))"

definition Serve :: "Server \<Rightarrow> UDPConn option \<Rightarrow> event list \<Rightarrow> serve_result \<times> Server \<times> task list" where
  "Serve s c evs =
     (if rh s = None \<and> wh s = None then (ServeReturned (Some ErrNoRegisteredHandlers), s, [])
      else (let s' = s\<lparr>conn := c\<rparr>
            in case c of
                 None \<Rightarrow> (ServePanicked, s', [])
               | Some _ \<Rightarrow> Serve_loop s' (replicate 65536 0) evs))"

text \<open>Registering a handler; a nil handler is \<open>None\<close>.\<close>
definition ReadHandler :: "Server \<Rightarrow> ReadHandler option \<Rightarrow> Server" where
  "ReadHandler s h = s\<lparr>rh := h\<rparr>"

definition WriteHandler :: "Server \<Rightarrow> WriteHandler option \<Rightarrow> Server" where
  "WriteHandler s h = s\<lparr>wh := h\<rparr>"

subsection \<open>Example configurations\<close>

definition example_world :: world where
  "example_world =
     \<lparr>writes = [], chans = (\<lambda>_. \<lparr>chan_cap = 0, chan_buf = [], chan_sendq = []\<rparr>),
      next_chan = 0, socks = [], closed = []\<rparr>"

text \<open>The world after one channel of capacity 64 has been made.\<close>
definition example_world1 :: world where
  "example_world1 = example_world
     \<lparr>chans := (chans example_world)(0 := \<lparr>chan_cap = 64, chan_buf = [], chan_sendq = []\<rparr>),
      next_chan := Suc 0\<rparr>"

text \<open>Collaborators: a request of two bytes or more is valid, the setup of a write
  request fails, and every send on the socket fails.\<close>
definition example_env :: env where
  "example_env =
     \<lparr>validate = (\<lambda>dg. case dg of Raw (x # y # _) \<Rightarrow> None | _ \<Rightarrow> Some (Other ''short'')),
      dg_mode = (\<lambda>_. ''octet''),
      filename = (\<lambda>_. ''a.txt''),
      readSetup = (\<lambda>c w. (Some (Other ''no size''), w)),
      WriteTo_err = Some (Other ''send failed''),
      newConn_err = None,
      Close_err = None\<rparr>"

text \<open>A read handler that panics, and a write handler that answers with what it saw
  in \<^verbatim>\<open>c.err\<close>.\<close>
definition panicking_handler :: ReadHandler where
  "panicking_handler = (\<lambda>r w. (Panicked, w))"

definition reporting_handler :: WriteHandler where
  "reporting_handler = (\<lambda>r w. case r of WriteRequest c n \<Rightarrow>
      (Returned, w\<lparr>writes := writes w @
         [(ErrorDatagram ErrCodeIllegalOperation
             (case err c of Some _ \<Rightarrow> ''setup failed'' | None \<Rightarrow> ''setup done''), remote c)]\<rparr>))"

text \<open>A single-port server with no handler, serving on socket 0, with one transfer
  registered.\<close>
definition example_server :: Server where
  "example_server =
     \<lparr>net = ''udp'', addrStr = '':69'', conn = Some 0, close = False, singlePort = True,
      mgr = Some \<lparr>reqMap = [''10.0.0.1:2000'' \<mapsto> 0]\<rparr>, retransmit = 10,
      rh = None, wh = None\<rparr>"

text \<open>A single-port server with both handlers, serving on socket 0, with no transfer.\<close>
definition single_port_server :: Server where
  "single_port_server =
     \<lparr>net = ''udp'', addrStr = '':69'', conn = Some 0, close = False, singlePort = True,
      mgr = Some \<lparr>reqMap = Map.empty\<rparr>, retransmit = 10,
      rh = Some panicking_handler, wh = Some reporting_handler\<rparr>"

text \<open>The connection \<^verbatim>\<open>newConn\<close> builds on that server for a request from 10.0.0.1:2000.\<close>
definition example_conn :: conn where
  "example_conn =
     \<lparr>remote = ''10.0.0.1:2000'', mode = ''octet'', netc = Shared (Some 0) 0,
      rx = Raw [0, 1, 97, 0], retransmit = 10, err = None\<rparr>"

subsection \<open>Notions used in the statements\<close>

text \<open>
  In a sequence of registry calls, a \<^verbatim>\<open>New\<close> for the endpoint has been made and no
  \<^verbatim>\<open>Remove\<close> for it has been made since.
\<close>
definition live :: "addr \<Rightarrow> mgr_op list \<Rightarrow> bool" where
  "live a ops \<longleftrightarrow> (\<exists>i<length ops. ops ! i = OpNew a \<and>
      (\<forall>j. i < j \<and> j < length ops \<longrightarrow> ops ! j \<noteq> OpRemove a))"

text \<open>
  The second byte of the latest datagram of two bytes or more among the events, and
  \<open>r\<close> when there is none.
\<close>
fun residual :: "byte \<Rightarrow> event list \<Rightarrow> byte" where
  "residual r [] = r"
| "residual r (Datagram p a # evs) = residual (if 1 < length p then p ! 1 else r) evs"
| "residual r (ReadError e # evs) = residual r evs"
| "residual r (CloseCalled e # evs) = residual r evs"

section \<open>Properties\<close>

subsection \<open>Facts shared by the proofs\<close>

lemma make_chan_example: "make_chan 64 example_world = (0, example_world1)"
  by (simp add: make_chan_def example_world_def example_world1_def)

lemma newConn_example:
  "newConn example_env single_port_server ''10.0.0.1:2000'' [0, 1, 97, 0] example_world
     = (Ok (example_conn, closer example_env example_conn ''10.0.0.1:2000''),
        single_port_server\<lparr>mgr := Some \<lparr>reqMap = [''10.0.0.1:2000'' \<mapsto> 0]\<rparr>\<rparr>,
        example_world1)"
proof -
  have v: "validate example_env (Raw [0, 1, 97, 0]) = None"
    and md: "dg_mode example_env (Raw [0, 1, 97, 0]) = ''octet''"
    by (simp_all add: example_env_def)
  show ?thesis
    by (simp add: newConn_def Let_def v md make_chan_example single_port_server_def
        setBytes_def New_def newSinglePortConn_def example_conn_def)
qed

lemma Get_Remove: "Get (Remove m a) a = None"
  by (simp add: Get_def Remove_def)

lemma newConn_Ok_closer:
  "newConn ev s a b w = (Ok (c, cl), s1, w1) \<Longrightarrow> cl = closer ev c a"
  by (auto simp: newConn_def Let_def split: option.splits if_splits prod.splits sum.splits)

lemma newConn_Ok_singlePort:
  "newConn ev s a b w = (Ok (c, cl), s1, w1) \<Longrightarrow>
     singlePort s1 = singlePort s \<and> (singlePort s \<longrightarrow> (\<exists>m. mgr s1 = Some m))"
  by (auto simp: newConn_def Let_def split: option.splits if_splits prod.splits sum.splits)

lemma newConn_Ok_dedicated:
  "newConn ev s a b w = (Ok (c, cl), s1, w1) \<Longrightarrow> \<not> singlePort s \<Longrightarrow> s1 = s"
  by (auto simp: newConn_def Let_def split: option.splits if_splits prod.splits sum.splits)

lemma closer_effect:
  "closer ev c a s w =
     (if singlePort s \<and> mgr s = None then Panic else Ok (Close_err ev),
      if singlePort s then (case mgr s of None \<Rightarrow> s | Some m \<Rightarrow> s\<lparr>mgr := Some (Remove m a)\<rparr>)
      else s,
      w\<lparr>closed := closed w @ [netc c]\<rparr>)"
  by (simp add: closer_def conn_Close_def split: option.splits)

lemma run_deferred_closer:
  assumes "out \<noteq> Blocked" "singlePort s \<longrightarrow> mgr s = Some m"
  shows "run_deferred (closer ev c a) out s w =
           (out, if singlePort s then s\<lparr>mgr := Some (Remove m a)\<rparr> else s,
            w\<lparr>closed := closed w @ [netc c]\<rparr>)"
  using assms by (cases out) (auto simp: run_deferred_def errorDefer_def closer_effect)

text \<open>A server made by \<^verbatim>\<open>NewServer\<close> from the package's options has a registry whenever
  it is in single-port mode.\<close>
lemma mk_opt_registry:
  "mk_opt x s = Inr s' \<Longrightarrow> (singlePort s \<longrightarrow> mgr s \<noteq> None) \<Longrightarrow> singlePort s' \<longrightarrow> mgr s' \<noteq> None"
  by (cases x) (auto simp: ServerNet_def ServerRetransmit_def ServerSinglePort_def split: if_splits)

lemma apply_opts_registry:
  "apply_opts (map mk_opt xs) s = Inr s' \<Longrightarrow> (singlePort s \<longrightarrow> mgr s \<noteq> None) \<Longrightarrow>
     singlePort s' \<longrightarrow> mgr s' \<noteq> None"
proof (induction xs arbitrary: s)
  case Nil
  then show ?case by simp
next
  case (Cons x xs)
  from Cons.prems(1) obtain s1 where s1: "mk_opt x s = Inr s1"
    and rest: "apply_opts (map mk_opt xs) s1 = Inr s'"
    by (auto split: sum.splits)
  from mk_opt_registry [OF s1 Cons.prems(2)] Cons.IH [OF rest] show ?case by blast
qed

lemma NewServer_registry:
  "NewServer a (map mk_opt xs) = Inr s \<Longrightarrow> singlePort s \<longrightarrow> mgr s \<noteq> None"
  unfolding NewServer_def by (erule apply_opts_registry) simp

subsection \<open>demuxToConn\<close>

lemma demux_delivers:
  assumes "singlePort s" "mgr s = Some m" "Get m a = Some ch"
  shows "demuxToConn ev s a b w = chan_send ch b w"
  using assms by (simp add: demuxToConn_def)

lemma demux_rejects:
  assumes "\<not> singlePort s \<or> (\<exists>m. mgr s = Some m \<and> Get m a = None)" "conn s = Some k"
  shows "demuxToConn ev s a b w =
     (Returned,
      w\<lparr>writes := writes w @ [(ErrorDatagram ErrCodeUnknownTransferID ''Unexpected TID'', a)]\<rparr>)"
  using assms by (auto simp: demuxToConn_def WriteTo_def writeError_def)

text \<open>
  C1. On a server that has its socket (and, in single-port mode, its registry), 
  \<^verbatim>\<open>demuxToConn\<close> hands the raw datagram to the channel registered for the sender exactly
  when single-port mode is on and the registry has an entry for the sender: the datagram
  goes to the end of that channel's buffer, or, with the buffer full, the task parks on
  that channel with it; no reply is written and nothing else changes. In every other
  case it writes one "unknown transfer ID" error datagram to the sender and returns,
  whatever the send returns, and nothing else changes. The registry is not an output of
  \<^verbatim>\<open>demuxToConn\<close> at all.
\<close>
theorem demuxToConn_routes:
  assumes sock: "conn s = Some k"
    and reg: "singlePort s \<longrightarrow> mgr s = Some m"
  shows "(singlePort s \<and> Get m a \<noteq> None \<longrightarrow>
            (\<exists>ch. Get m a = Some ch \<and>
               demuxToConn ev s a b w =
                 (if length (chan_buf (chans w ch)) < chan_cap (chans w ch)
                  then (Returned,
                        w\<lparr>chans := (chans w)
                             (ch := (chans w ch)\<lparr>chan_buf := chan_buf (chans w ch) @ [b]\<rparr>)\<rparr>)
                  else (Blocked,
                        w\<lparr>chans := (chans w)
                             (ch := (chans w ch)\<lparr>chan_sendq := chan_sendq (chans w ch) @ [b]\<rparr>)\<rparr>))))
       \<and> (\<not> (singlePort s \<and> Get m a \<noteq> None) \<longrightarrow>
            demuxToConn ev s a b w =
              (Returned,
               w\<lparr>writes := writes w @
                     [(ErrorDatagram ErrCodeUnknownTransferID ''Unexpected TID'', a)]\<rparr>))"
proof (cases "singlePort s \<and> Get m a \<noteq> None")
  case True
  then obtain ch where ch: "Get m a = Some ch" by auto
  from True reg have m: "mgr s = Some m" by simp
  have "demuxToConn ev s a b w = chan_send ch b w"
    using demux_delivers [of s m a ch ev b w] True m ch by simp
  with True ch show ?thesis by (simp add: chan_send_def Let_def)
next
  case False
  with reg have "\<not> singlePort s \<or> (\<exists>m. mgr s = Some m \<and> Get m a = None)" by auto
  from demux_rejects [OF this sock, of ev b w] False show ?thesis by auto
qed

theorem demuxToConn_routes_witness:
  "chan_buf (chans (snd (demuxToConn example_env example_server ''10.0.0.1:2000''
       [0, 3, 0, 1] example_world1)) 0) = [[0, 3, 0, 1]]
   \<and> writes (snd (demuxToConn example_env example_server ''10.0.0.1:2000''
       [0, 3, 0, 1] example_world1)) = []
   \<and> demuxToConn example_env example_server ''10.0.0.9:2000'' [0, 3, 0, 1] example_world1
       = (Returned, example_world1\<lparr>writes :=
            [(ErrorDatagram ErrCodeUnknownTransferID ''Unexpected TID'', ''10.0.0.9:2000'')]\<rparr>)"
proof -
  have sock: "conn example_server = Some 0" by (simp add: example_server_def)
  have reg: "singlePort example_server \<longrightarrow>
      mgr example_server = Some \<lparr>reqMap = [''10.0.0.1:2000'' \<mapsto> 0]\<rparr>"
    by (simp add: example_server_def)
  have sp: "singlePort example_server" by (simp add: example_server_def)
  have g1: "Get \<lparr>reqMap = [''10.0.0.1:2000'' \<mapsto> 0]\<rparr> ''10.0.0.1:2000'' = Some 0"
    by (simp add: Get_def)
  have g2: "Get \<lparr>reqMap = [''10.0.0.1:2000'' \<mapsto> 0]\<rparr> ''10.0.0.9:2000'' = None"
    by (simp add: Get_def)
  have c0: "chans example_world1 0 = \<lparr>chan_cap = 64, chan_buf = [], chan_sendq = []\<rparr>"
    by (simp add: example_world1_def)
  have wr: "writes example_world1 = []"
    by (simp add: example_world1_def example_world_def)
  show ?thesis
    using demuxToConn_routes [OF sock reg, of "''10.0.0.1:2000''" example_env "[0, 3, 0, 1]"
        example_world1]
      demuxToConn_routes [OF sock reg, of "''10.0.0.9:2000''" example_env "[0, 3, 0, 1]"
        example_world1]
      sp g1 g2 c0 wr
    by simp
qed

subsection \<open>The closer\<close>

text \<open>
  C2. When \<^verbatim>\<open>newConn\<close> succeeds and the handler returns or panics (\<open>out\<close> is not
  \<open>Blocked\<close>), \<^verbatim>\<open>dispatchReadRequest\<close> and \<^verbatim>\<open>dispatchWriteRequest\<close> end with the handler's
  outcome after the closer has run on the world the handler left: the connection's
  network channel is the last one closed, and in single-port mode the registry has no
  entry for the sender; without single-port mode the server is as before.
\<close>
theorem closer_runs_on_every_exit:
  assumes nc: "newConn ev s a b w = (Ok (c, cl), s1, w1)"
    and ret: "out \<noteq> Blocked"
  shows "(\<forall>h. rh s = Some h \<and> h (ReadRequest c (filename ev (rx c))) w1 = (out, w2) \<longrightarrow>
            (\<exists>s3. dispatchReadRequest ev s a b w = (out, s3, w2\<lparr>closed := closed w2 @ [netc c]\<rparr>)
                \<and> (if singlePort s then \<exists>m. mgr s3 = Some m \<and> Get m a = None else s3 = s)))
       \<and> (\<forall>h se w1'. wh s = Some h \<and> readSetup ev c w1 = (se, w1')
              \<and> h (WriteRequest (case se of Some e \<Rightarrow> c\<lparr>err := Some e\<rparr> | None \<Rightarrow> c)
                     (filename ev (rx c))) w1' = (out, w2) \<longrightarrow>
            (\<exists>s3. dispatchWriteRequest ev s a b w = (out, s3, w2\<lparr>closed := closed w2 @ [netc c]\<rparr>)
                \<and> (if singlePort s then \<exists>m. mgr s3 = Some m \<and> Get m a = None else s3 = s)))"
proof -
  have cl: "cl = closer ev c a" using nc by (rule newConn_Ok_closer)
  from newConn_Ok_singlePort [OF nc] have sp: "singlePort s1 = singlePort s"
    and reg: "singlePort s \<longrightarrow> (\<exists>m. mgr s1 = Some m)" by auto
  have s1: "\<not> singlePort s \<Longrightarrow> s1 = s" using nc by (rule newConn_Ok_dedicated)
  obtain m where m: "singlePort s1 \<longrightarrow> mgr s1 = Some m" using sp reg by auto
  have rd: "\<And>w. run_deferred cl out s1 w =
           (out, if singlePort s1 then s1\<lparr>mgr := Some (Remove m a)\<rparr> else s1,
            w\<lparr>closed := closed w @ [netc c]\<rparr>)"
    unfolding cl using ret m by (rule run_deferred_closer)
  show ?thesis
    using nc rd sp s1 by (auto simp: dispatchReadRequest_def dispatchWriteRequest_def Get_Remove)
qed

theorem closer_runs_on_every_exit_witness:
  "fst (dispatchReadRequest example_env single_port_server ''10.0.0.1:2000'' [0, 1, 97, 0]
     example_world) = Panicked
   \<and> closed (snd (snd (dispatchReadRequest example_env single_port_server ''10.0.0.1:2000''
        [0, 1, 97, 0] example_world))) = [Shared (Some 0) 0]
   \<and> (\<exists>m. mgr (fst (snd (dispatchReadRequest example_env single_port_server ''10.0.0.1:2000''
        [0, 1, 97, 0] example_world))) = Some m \<and> Get m ''10.0.0.1:2000'' = None)"
proof -
  have ret: "Panicked \<noteq> Blocked" by simp
  have h: "rh single_port_server = Some panicking_handler"
    by (simp add: single_port_server_def)
  have run: "panicking_handler (ReadRequest example_conn (filename example_env (rx example_conn)))
      example_world1 = (Panicked, example_world1)"
    by (simp add: panicking_handler_def)
  have sp: "singlePort single_port_server" by (simp add: single_port_server_def)
  have cw: "closed example_world1 = []" by (simp add: example_world1_def example_world_def)
  have nt: "netc example_conn = Shared (Some 0) 0" by (simp add: example_conn_def)
  from closer_runs_on_every_exit [OF newConn_example ret, of example_world1] h run sp
  obtain s3 where "dispatchReadRequest example_env single_port_server ''10.0.0.1:2000''
        [0, 1, 97, 0] example_world
        = (Panicked, s3, example_world1\<lparr>closed := closed example_world1 @ [netc example_conn]\<rparr>)"
    and "\<exists>m. mgr s3 = Some m \<and> Get m ''10.0.0.1:2000'' = None"
    by auto
  then show ?thesis using cw nt by simp
qed

subsection \<open>Requests without a handler\<close>

text \<open>
  C4. On a server that has its socket: with no read handler registered,
  \<^verbatim>\<open>dispatchReadRequest\<close> writes one "illegal operation" error datagram to the sender and
  returns; the server (and so its registry) is unchanged and the world is unchanged
  but for that write, so no channel is made and no socket is opened. The same holds of
  \<^verbatim>\<open>dispatchWriteRequest\<close> with no write handler. Single-port mode plays no part.
\<close>
theorem no_handler_illegal_operation:
  assumes sock: "conn s = Some k"
  shows "(rh s = None \<longrightarrow>
            dispatchReadRequest ev s a b w =
              (Returned, s,
               w\<lparr>writes := writes w @
                  [(ErrorDatagram ErrCodeIllegalOperation
                      ''Server does not support read requests.'', a)]\<rparr>))
       \<and> (wh s = None \<longrightarrow>
            dispatchWriteRequest ev s a b w =
              (Returned, s,
               w\<lparr>writes := writes w @
                  [(ErrorDatagram ErrCodeIllegalOperation
                      ''Server does not support write requests.'', a)]\<rparr>))"
  using sock
  by (simp add: dispatchReadRequest_def dispatchWriteRequest_def WriteTo_def writeError_def)

theorem no_handler_illegal_operation_witness:
  "dispatchReadRequest example_env example_server ''10.0.0.7:1234'' [0, 1, 97, 0] example_world1
     = (Returned, example_server,
        example_world1\<lparr>writes := [(ErrorDatagram ErrCodeIllegalOperation
             ''Server does not support read requests.'', ''10.0.0.7:1234'')]\<rparr>)
   \<and> dispatchWriteRequest example_env example_server ''10.0.0.7:1234'' [0, 2, 97, 0] example_world1
     = (Returned, example_server,
        example_world1\<lparr>writes := [(ErrorDatagram ErrCodeIllegalOperation
             ''Server does not support write requests.'', ''10.0.0.7:1234'')]\<rparr>)"
proof -
  have sock: "conn example_server = Some 0" by (simp add: example_server_def)
  have nh: "rh example_server = None" "wh example_server = None"
    by (simp_all add: example_server_def)
  have wr: "writes example_world1 = []" by (simp add: example_world1_def example_world_def)
  show ?thesis
    using no_handler_illegal_operation [OF sock, of example_env "''10.0.0.7:1234''"
        "[0, 1, 97, 0]" example_world1]
      no_handler_illegal_operation [OF sock, of example_env "''10.0.0.7:1234''"
        "[0, 2, 97, 0]" example_world1] nh wr
    by simp
qed

subsection \<open>newConn on an invalid request\<close>

text \<open>
  C5. If the validation of the datagram fails with an error, \<^verbatim>\<open>newConn\<close> returns that
  error and no connection, and the server (with its registry) and the world (channels,
  sockets) are exactly as before the call.
\<close>
theorem newConn_validation_fails:
  "validate ev (setBytes b) = Some e \<Longrightarrow> newConn ev s a b w = (Err e, s, w)"
  by (simp add: newConn_def)

theorem newConn_validation_fails_witness:
  "validate example_env (setBytes [0]) = Some (Other ''short'')
   \<and> newConn example_env single_port_server ''10.0.0.1:2000'' [0] example_world
       = (Err (Other ''short''), single_port_server, example_world)"
proof -
  have v: "validate example_env (setBytes [0]) = Some (Other ''short'')"
    by (simp add: example_env_def setBytes_def)
  from newConn_validation_fails [OF v] v show ?thesis by simp
qed

subsection \<open>NewServer\<close>

lemma mk_opt_fails: "isl (mk_opt x s) \<longleftrightarrow> invalid_opt x"
  by (cases x) (simp_all add: ServerNet_def ServerRetransmit_def ServerSinglePort_def)

lemma apply_opts_fails:
  "isl (apply_opts (map mk_opt xs) s) \<longleftrightarrow> (\<exists>x \<in> set xs. invalid_opt x)"
proof (induction xs arbitrary: s)
  case Nil
  show ?case by simp
next
  case (Cons x xs)
  show ?case
  proof (cases "mk_opt x s")
    case (Inl e)
    then have "invalid_opt x" using mk_opt_fails [of x s] by simp
    with Inl show ?thesis by simp
  next
    case (Inr s')
    then have "\<not> invalid_opt x" using mk_opt_fails [of x s] by simp
    with Inr Cons.IH [of s'] show ?thesis by simp
  qed
qed

text \<open>
  C7. \<^verbatim>\<open>NewServer\<close>, given options built by \<^verbatim>\<open>ServerNet\<close>, \<^verbatim>\<open>ServerRetransmit\<close> and
  \<^verbatim>\<open>ServerSinglePort\<close>, returns an error (and no server) if and only if one of them is a
  network other than "udp", "udp4" and "udp6" or a retransmission limit below zero; a
  limit of zero or more is accepted.
\<close>
theorem NewServer_fails_iff:
  "isl (NewServer a (map mk_opt xs)) \<longleftrightarrow>
     (\<exists>n. OptNet n \<in> set xs \<and> n \<noteq> ''udp'' \<and> n \<noteq> ''udp4'' \<and> n \<noteq> ''udp6'')
     \<or> (\<exists>i. OptRetransmit i \<in> set xs \<and> i < 0)"
proof -
  have "(\<exists>x \<in> set xs. invalid_opt x) \<longleftrightarrow>
     (\<exists>n. OptNet n \<in> set xs \<and> n \<noteq> ''udp'' \<and> n \<noteq> ''udp4'' \<and> n \<noteq> ''udp6'')
     \<or> (\<exists>i. OptRetransmit i \<in> set xs \<and> i < 0)"
  proof
    assume "\<exists>x \<in> set xs. invalid_opt x"
    then obtain x where x: "x \<in> set xs" "invalid_opt x" by blast
    show "(\<exists>n. OptNet n \<in> set xs \<and> n \<noteq> ''udp'' \<and> n \<noteq> ''udp4'' \<and> n \<noteq> ''udp6'')
       \<or> (\<exists>i. OptRetransmit i \<in> set xs \<and> i < 0)"
      by (insert x, cases x, auto)
  next
    assume "(\<exists>n. OptNet n \<in> set xs \<and> n \<noteq> ''udp'' \<and> n \<noteq> ''udp4'' \<and> n \<noteq> ''udp6'')
       \<or> (\<exists>i. OptRetransmit i \<in> set xs \<and> i < 0)"
    then show "\<exists>x \<in> set xs. invalid_opt x"
    proof
      assume "\<exists>n. OptNet n \<in> set xs \<and> n \<noteq> ''udp'' \<and> n \<noteq> ''udp4'' \<and> n \<noteq> ''udp6''"
      then obtain n where "OptNet n \<in> set xs" "invalid_opt (OptNet n)" by auto
      then show ?thesis by blast
    next
      assume "\<exists>i. OptRetransmit i \<in> set xs \<and> i < 0"
      then obtain i where "OptRetransmit i \<in> set xs" "invalid_opt (OptRetransmit i)" by auto
      then show ?thesis by blast
    qed
  qed
  then show ?thesis unfolding NewServer_def by (simp only: apply_opts_fails)
qed

theorem NewServer_fails_iff_witness:
  "\<not> isl (NewServer '':69'' (map mk_opt [OptRetransmit 0, OptNet ''udp4'', OptSinglePort True]))
   \<and> isl (NewServer '':69'' (map mk_opt [OptSinglePort True, OptRetransmit (- 1)]))
   \<and> isl (NewServer '':69'' (map mk_opt [OptNet ''tcp'']))"
  using NewServer_fails_iff [of "'':69''" "[OptRetransmit 0, OptNet ''udp4'', OptSinglePort True]"]
    NewServer_fails_iff [of "'':69''" "[OptSinglePort True, OptRetransmit (- 1)]"]
    NewServer_fails_iff [of "'':69''" "[OptNet ''tcp'']"]
  by simp

subsection \<open>Close\<close>

text \<open>
  C9. \<^verbatim>\<open>Close\<close> on a server whose \<^verbatim>\<open>conn\<close> is nil (no \<^verbatim>\<open>Serve\<close> has assigned it) panics, and
  returns no error; it returns (what the socket's \<^verbatim>\<open>Close\<close> returns) exactly when the
  server has its socket.
\<close>
theorem Close_panics_without_socket:
  "(fst (Close e s) = Panic) = (conn s = None) \<and> (fst (Close e s) = Ok e) = (conn s \<noteq> None)"
  by (simp add: Close_def Let_def split: option.splits)

theorem Close_panics_without_socket_witness:
  "(case NewServer '':69'' [] of Inl _ \<Rightarrow> False | Inr s \<Rightarrow> fst (Close None s) = Panic)
   \<and> fst (Close None example_server) = Ok None"
proof -
  have a: "conn example_server \<noteq> None" by (simp add: example_server_def)
  show ?thesis
    using Close_panics_without_socket [of None example_server] a
    by (simp add: NewServer_def Close_panics_without_socket)
qed

subsection \<open>The registry\<close>

lemma live_Nil: "\<not> live a []"
  by (simp add: live_def)

lemma live_snoc_New: "live a (ops @ [OpNew a])"
  unfolding live_def by (rule exI [of _ "length ops"]) auto

lemma live_snoc_Remove: "\<not> live a (ops @ [OpRemove a])"
proof
  assume "live a (ops @ [OpRemove a])"
  then obtain i where i: "i < length (ops @ [OpRemove a])" "(ops @ [OpRemove a]) ! i = OpNew a"
    and later: "\<forall>j. i < j \<and> j < length (ops @ [OpRemove a]) \<longrightarrow> (ops @ [OpRemove a]) ! j \<noteq> OpRemove a"
    unfolding live_def by blast
  from i have "i < length ops" by (cases "i = length ops") auto
  with later have "(ops @ [OpRemove a]) ! length ops \<noteq> OpRemove a"
    by (elim allE [of _ "length ops"]) simp
  then show False by simp
qed

lemma live_snoc_other:
  assumes "x \<noteq> OpNew a" "x \<noteq> OpRemove a"
  shows "live a (ops @ [x]) \<longleftrightarrow> live a ops"
proof
  assume "live a (ops @ [x])"
  then obtain i where i: "i < length (ops @ [x])" "(ops @ [x]) ! i = OpNew a"
    and later: "\<forall>j. i < j \<and> j < length (ops @ [x]) \<longrightarrow> (ops @ [x]) ! j \<noteq> OpRemove a"
    unfolding live_def by blast
  from i assms have il: "i < length ops" by (cases "i = length ops") auto
  with i have "ops ! i = OpNew a" by (simp add: nth_append)
  moreover have "\<forall>j. i < j \<and> j < length ops \<longrightarrow> ops ! j \<noteq> OpRemove a"
  proof (intro allI impI)
    fix j assume j: "i < j \<and> j < length ops"
    with later have "(ops @ [x]) ! j \<noteq> OpRemove a" by simp
    with j show "ops ! j \<noteq> OpRemove a" by (simp add: nth_append)
  qed
  ultimately show "live a ops" unfolding live_def using il by blast
next
  assume "live a ops"
  then obtain i where i: "i < length ops" "ops ! i = OpNew a"
    and later: "\<forall>j. i < j \<and> j < length ops \<longrightarrow> ops ! j \<noteq> OpRemove a"
    unfolding live_def by blast
  have "\<forall>j. i < j \<and> j < length (ops @ [x]) \<longrightarrow> (ops @ [x]) ! j \<noteq> OpRemove a"
  proof (intro allI impI)
    fix j assume j: "i < j \<and> j < length (ops @ [x])"
    show "(ops @ [x]) ! j \<noteq> OpRemove a"
    proof (cases "j = length ops")
      case True
      with assms show ?thesis by simp
    next
      case False
      with j have "j < length ops" by simp
      with later j show ?thesis by (simp add: nth_append)
    qed
  qed
  with i show "live a (ops @ [x])" unfolding live_def
    by (intro exI [of _ i]) (simp add: nth_append)
qed

lemma run_ops_append:
  "run_ops (xs @ ys) m w = (case run_ops xs m w of (m', w') \<Rightarrow> run_ops ys m' w')"
  by (induction xs m w rule: run_ops.induct) (simp_all add: New_def Let_def split: prod.splits)

lemma run_ops_snoc:
  "fst (run_ops (ops @ [x]) m w) =
     (case x of OpNew a \<Rightarrow> fst (snd (New (fst (run_ops ops m w)) a (snd (run_ops ops m w))))
              | OpRemove a \<Rightarrow> Remove (fst (run_ops ops m w)) a)"
  by (cases x) (simp_all add: run_ops_append split: prod.splits)

lemma Get_New: "Get (fst (snd (New m b w))) a = (if a = b then Some (next_chan w) else Get m a)"
  by (simp add: New_def make_chan_def Get_def)

lemma Get_Remove_other: "Get (Remove m b) a = (if a = b then None else Get m a)"
  by (simp add: Get_def Remove_def)

lemma Get_run_ops:
  "Get (fst (run_ops ops \<lparr>reqMap = Map.empty\<rparr> w)) a \<noteq> None \<longleftrightarrow> live a ops"
proof (induction ops rule: rev_induct)
  case Nil
  show ?case by (simp add: Get_def live_Nil)
next
  case (snoc x ops)
  show ?case
  proof (cases x)
    case (OpNew b)
    show ?thesis
    proof (cases "a = b")
      case True
      with OpNew show ?thesis by (simp add: run_ops_snoc Get_New live_snoc_New)
    next
      case False
      with OpNew have "x \<noteq> OpNew a" "x \<noteq> OpRemove a" by auto
      from live_snoc_other [OF this] snoc.IH OpNew False show ?thesis
        by (simp add: run_ops_snoc Get_New)
    qed
  next
    case (OpRemove b)
    show ?thesis
    proof (cases "a = b")
      case True
      with OpRemove show ?thesis by (simp add: run_ops_snoc Get_Remove_other live_snoc_Remove)
    next
      case False
      with OpRemove have "x \<noteq> OpNew a" "x \<noteq> OpRemove a" by auto
      from live_snoc_other [OF this] snoc.IH OpRemove False show ?thesis
        by (simp add: run_ops_snoc Get_Remove_other)
    qed
  qed
qed

text \<open>
  C3. After any sequence of \<^verbatim>\<open>New\<close> and \<^verbatim>\<open>Remove\<close> calls on the registry that
  \<^verbatim>\<open>ServerSinglePort\<close> creates (empty), \<^verbatim>\<open>Get\<close> for an endpoint reports "found" if and only
  if some call was a \<^verbatim>\<open>New\<close> for that endpoint and no later call was a \<^verbatim>\<open>Remove\<close> for it.
  And on a single-port server, after the closer of a transfer has run, \<^verbatim>\<open>Get\<close> for the
  transfer's endpoint reports "not found".
\<close>
theorem registry_Get_iff:
  "(Get (fst (run_ops ops \<lparr>reqMap = Map.empty\<rparr> w)) a \<noteq> None \<longleftrightarrow>
      (\<exists>i<length ops. ops ! i = OpNew a \<and>
         (\<forall>j. i < j \<and> j < length ops \<longrightarrow> ops ! j \<noteq> OpRemove a)))
   \<and> (singlePort s \<and> mgr s = Some m \<longrightarrow>
        (\<exists>m'. mgr (fst (snd (closer ev c a s w'))) = Some m' \<and> Get m' a = None))"
  using Get_run_ops [of ops w a] by (simp add: live_def closer_effect Get_Remove)

theorem registry_Get_iff_witness:
  "Get (fst (run_ops [OpNew ''A'', OpNew ''B'', OpRemove ''A'', OpNew ''A'', OpRemove ''B'']
       \<lparr>reqMap = Map.empty\<rparr> example_world)) ''A'' \<noteq> None
   \<and> Get (fst (run_ops [OpNew ''A'', OpNew ''B'', OpRemove ''A'', OpNew ''A'', OpRemove ''B'']
       \<lparr>reqMap = Map.empty\<rparr> example_world)) ''B'' = None
   \<and> (\<exists>m'. mgr (fst (snd (closer example_env example_conn ''10.0.0.1:2000'' example_server
         example_world1))) = Some m' \<and> Get m' ''10.0.0.1:2000'' = None)"
proof -
  let ?ops = "[OpNew ''A'', OpNew ''B'', OpRemove ''A'', OpNew ''A'', OpRemove ''B'']"
  have sp: "singlePort example_server \<and>
      mgr example_server = Some \<lparr>reqMap = [''10.0.0.1:2000'' \<mapsto> 0]\<rparr>"
    by (simp add: example_server_def)
  have A: "\<exists>i<length ?ops. ?ops ! i = OpNew ''A'' \<and>
         (\<forall>j. i < j \<and> j < length ?ops \<longrightarrow> ?ops ! j \<noteq> OpRemove ''A'')"
    by (rule exI [of _ 3]) (auto simp: less_Suc_eq)
  have B: "\<not> (\<exists>i<length ?ops. ?ops ! i = OpNew ''B'' \<and>
         (\<forall>j. i < j \<and> j < length ?ops \<longrightarrow> ?ops ! j \<noteq> OpRemove ''B''))"
    by (auto simp: less_Suc_eq nth_Cons')
  show ?thesis
    using registry_Get_iff [of ?ops example_world "''A''" example_server
        "\<lparr>reqMap = [''10.0.0.1:2000'' \<mapsto> 0]\<rparr>" example_env example_conn example_world1]
      registry_Get_iff [of ?ops example_world "''B''" example_server
        "\<lparr>reqMap = [''10.0.0.1:2000'' \<mapsto> 0]\<rparr>" example_env example_conn example_world1]
      registry_Get_iff [of "[]" example_world "''10.0.0.1:2000''" example_server
        "\<lparr>reqMap = [''10.0.0.1:2000'' \<mapsto> 0]\<rparr>" example_env example_conn example_world1]
      sp A B
    by blast
qed

subsection \<open>A failed setup of a write request\<close>

text \<open>
  C6. In \<^verbatim>\<open>dispatchWriteRequest\<close>, when the connection has been built and \<^verbatim>\<open>readSetup\<close>
  fails with an error, the dispatch goes on: the write handler is called on a request
  whose connection holds that error in \<^verbatim>\<open>err\<close>, and the deferred closer runs after it.
\<close>
theorem setup_error_reaches_handler:
  assumes h: "wh s = Some h"
    and nc: "newConn ev s a b w = (Ok (c, cl), s1, w1)"
    and rs: "readSetup ev c w1 = (Some e, w1')"
  shows "dispatchWriteRequest ev s a b w =
           (case h (WriteRequest (c\<lparr>err := Some e\<rparr>) (filename ev (rx c))) w1' of
              (out, w2) \<Rightarrow> run_deferred cl out s1 w2)"
  using assms by (simp add: dispatchWriteRequest_def)

theorem setup_error_reaches_handler_witness:
  "fst (dispatchWriteRequest example_env single_port_server ''10.0.0.1:2000'' [0, 1, 97, 0]
      example_world) = Returned
   \<and> writes (snd (snd (dispatchWriteRequest example_env single_port_server ''10.0.0.1:2000''
      [0, 1, 97, 0] example_world)))
       = [(ErrorDatagram ErrCodeIllegalOperation ''setup failed'', ''10.0.0.1:2000'')]"
proof -
  have h: "wh single_port_server = Some reporting_handler"
    by (simp add: single_port_server_def)
  have rs: "readSetup example_env example_conn example_world1
      = (Some (Other ''no size''), example_world1)"
    by (simp add: example_env_def)
  have run: "reporting_handler
       (WriteRequest (example_conn\<lparr>err := Some (Other ''no size'')\<rparr>)
          (filename example_env (rx example_conn))) example_world1
     = (Returned, example_world1\<lparr>writes :=
          [(ErrorDatagram ErrCodeIllegalOperation ''setup failed'', ''10.0.0.1:2000'')]\<rparr>)"
    by (simp add: reporting_handler_def example_conn_def example_world1_def example_world_def)
  have sp: "singlePort (single_port_server\<lparr>mgr := Some \<lparr>reqMap = [''10.0.0.1:2000'' \<mapsto> 0]\<rparr>\<rparr>)
      \<longrightarrow> mgr (single_port_server\<lparr>mgr := Some \<lparr>reqMap = [''10.0.0.1:2000'' \<mapsto> 0]\<rparr>\<rparr>)
          = Some \<lparr>reqMap = [''10.0.0.1:2000'' \<mapsto> 0]\<rparr>"
    by simp
  have ret: "Returned \<noteq> Blocked" by simp
  show ?thesis
    using setup_error_reaches_handler [OF h newConn_example rs]
    by (simp add: run run_deferred_closer [OF ret sp])
qed

subsection \<open>The receive loop\<close>

lemma ReadFromUDP_length: "length (snd (ReadFromUDP bf p)) = length bf"
  by (simp add: ReadFromUDP_def Let_def)

lemma ReadFromUDP_fst: "fst (ReadFromUDP bf p) = min (length p) (length bf)"
  by (simp add: ReadFromUDP_def Let_def)

lemma classify_Some: "1 < length bf \<Longrightarrow> classify bf a b = Some (switch_opcode (bf ! 1) a b)"
  by (simp add: classify_def)

lemma Serve_loop_Datagram:
  "1 < length bf \<Longrightarrow>
   Serve_loop s bf (Datagram p a # evs) =
     (case Serve_loop s (snd (ReadFromUDP bf p)) evs of
        (r, s', ts) \<Rightarrow>
          (r, s', switch_opcode (snd (ReadFromUDP bf p) ! 1) a
                     (take (fst (ReadFromUDP bf p)) (snd (ReadFromUDP bf p))) # ts))"
  by (simp add: Let_def split_beta classify_Some ReadFromUDP_length)

lemma Serve_loop_no_panic: "1 < length bf \<Longrightarrow> fst (Serve_loop s bf evs) \<noteq> ServePanicked"
proof (induction evs arbitrary: s bf)
  case Nil
  show ?case by simp
next
  case (Cons x evs)
  show ?case
  proof (cases x)
    case (Datagram p a)
    from Cons.prems have "1 < length (snd (ReadFromUDP bf p))" by (simp add: ReadFromUDP_length)
    from Cons.IH [OF this, of s] Datagram Cons.prems show ?thesis
      by (simp add: Serve_loop_Datagram split_beta del: Serve_loop.simps)
  next
    case (ReadError e)
    then show ?thesis by simp
  next
    case (CloseCalled e)
    with Cons.IH [OF Cons.prems] show ?thesis by simp
  qed
qed

lemma Close_snd: "snd (Close e s) = s\<lparr>close := True\<rparr>"
  by (simp add: Close_def Let_def split: option.splits)

lemma Serve_loop_read_error:
  assumes "1 < length bf" "\<forall>x. ReadError x \<notin> set pre"
  shows "fst (Serve_loop s bf (pre @ ReadError e # post)) =
           ServeReturned (if close s \<or> (\<exists>x. CloseCalled x \<in> set pre) then None
                          else Some (wrapError e ''reading from conn''))
       \<and> snd (snd (Serve_loop s bf (pre @ ReadError e # post))) = snd (snd (Serve_loop s bf pre))"
  using assms
proof (induction pre arbitrary: s bf)
  case Nil
  show ?case by simp
next
  case (Cons x pre)
  from Cons.prems have rest: "\<forall>x. ReadError x \<notin> set pre" by simp
  show ?case
  proof (cases x)
    case (Datagram p a)
    from Cons.prems have len: "1 < length (snd (ReadFromUDP bf p))"
      by (simp add: ReadFromUDP_length)
    from Cons.IH [OF len rest, of s] Datagram Cons.prems(1) show ?thesis
      by (simp add: Serve_loop_Datagram split_beta del: Serve_loop.simps)
  next
    case (ReadError e')
    with Cons.prems(2) have False by auto
    then show ?thesis ..
  next
    case (CloseCalled e')
    from Cons.IH [OF Cons.prems(1) rest, of "s\<lparr>close := True\<rparr>"] CloseCalled show ?thesis
      by (auto simp: Close_snd)
  qed
qed

lemma ReadFromUDP_nth1:
  "Suc 0 < length bf \<Longrightarrow>
     snd (ReadFromUDP bf p) ! Suc 0 = (if Suc 0 < length p then p ! Suc 0 else bf ! Suc 0)"
  by (auto simp: ReadFromUDP_def Let_def nth_append min_def)

lemma ReadFromUDP_short:
  "1 < length bf \<Longrightarrow> length p \<le> 1 \<Longrightarrow>
     take (fst (ReadFromUDP bf p)) (snd (ReadFromUDP bf p)) = p"
  by (simp add: ReadFromUDP_def Let_def min_def)

lemma Serve_loop_short:
  assumes "1 < length bf" "\<forall>x. ReadError x \<notin> set pre" "length p \<le> 1"
  shows "fst (Serve_loop s bf (pre @ [Datagram p a])) = ServeWaiting
       \<and> snd (snd (Serve_loop s bf (pre @ [Datagram p a])))
           = snd (snd (Serve_loop s bf pre)) @ [switch_opcode (residual (bf ! 1) pre) a p]"
  using assms
proof (induction pre arbitrary: s bf)
  case Nil
  then show ?case
    by (simp add: Serve_loop_Datagram ReadFromUDP_nth1 ReadFromUDP_short del: Serve_loop.simps(4))
next
  case (Cons x pre)
  from Cons.prems have rest: "\<forall>x. ReadError x \<notin> set pre" by simp
  show ?case
  proof (cases x)
    case (Datagram q c)
    from Cons.prems have len: "1 < length (snd (ReadFromUDP bf q))"
      by (simp add: ReadFromUDP_length)
    from Cons.IH [OF len rest Cons.prems(3), of s] Datagram Cons.prems(1) show ?thesis
      by (simp add: Serve_loop_Datagram split_beta ReadFromUDP_nth1 del: Serve_loop.simps(4))
  next
    case (ReadError e')
    with Cons.prems(2) have False by auto
    then show ?thesis ..
  next
    case (CloseCalled e')
    from Cons.IH [OF Cons.prems(1) rest Cons.prems(3), of "snd (Close e' s)"] CloseCalled
    show ?thesis by simp
  qed
qed

text \<open>
  C8. With a handler registered and a socket given: when a read of the socket returns
  an error, after any number of datagrams and calls of \<^verbatim>\<open>Close\<close>, \<^verbatim>\<open>Serve\<close> returns nil if
  the server is closing (its flag was set, or \<^verbatim>\<open>Close\<close> was called meanwhile) and the read
  error wrapped otherwise; the loop ends there: the tasks started are those started
  before the error, and what follows the error is not read.
\<close>
theorem Serve_read_error:
  assumes handlers: "rh s \<noteq> None \<or> wh s \<noteq> None"
    and reads: "\<forall>x. ReadError x \<notin> set pre"
  shows "fst (Serve s (Some k) (pre @ ReadError e # post)) =
           ServeReturned (if close s \<or> (\<exists>x. CloseCalled x \<in> set pre) then None
                          else Some (wrapError e ''reading from conn''))
       \<and> snd (snd (Serve s (Some k) (pre @ ReadError e # post)))
           = snd (snd (Serve s (Some k) pre))"
proof -
  have len: "1 < length (replicate 65536 (0::byte))" by simp
  from handlers have nh: "\<not> (rh s = None \<and> wh s = None)" by blast
  from Serve_loop_read_error [OF len reads, of "s\<lparr>conn := Some k\<rparr>" e post]
  show ?thesis by (simp add: Serve_def Let_def nh)
qed

theorem Serve_read_error_witness:
  "fst (Serve single_port_server (Some 0)
      [Datagram [0, 1, 97, 0] ''10.0.0.1:2000'', CloseCalled None, ReadError (Other ''closed''),
       Datagram [0, 2, 98, 0] ''10.0.0.2:2000'']) = ServeReturned None
   \<and> fst (Serve single_port_server (Some 0)
      [Datagram [0, 1, 97, 0] ''10.0.0.1:2000'', ReadError (Other ''reset'')])
       = ServeReturned (Some (Wrapped (Other ''reset'') ''reading from conn''))
   \<and> snd (snd (Serve single_port_server (Some 0)
      [Datagram [0, 1, 97, 0] ''10.0.0.1:2000'', CloseCalled None, ReadError (Other ''closed''),
       Datagram [0, 2, 98, 0] ''10.0.0.2:2000'']))
       = snd (snd (Serve single_port_server (Some 0)
           [Datagram [0, 1, 97, 0] ''10.0.0.1:2000'', CloseCalled None]))"
proof -
  have handlers: "rh single_port_server \<noteq> None \<or> wh single_port_server \<noteq> None"
    by (simp add: single_port_server_def)
  have cl: "\<not> close single_port_server" by (simp add: single_port_server_def)
  have r1: "\<forall>x. ReadError x \<notin> set [Datagram [0, 1, 97, 0] ''10.0.0.1:2000'', CloseCalled None]"
    by simp
  have r2: "\<forall>x. ReadError x \<notin> set [Datagram [0, 1, 97, 0] ''10.0.0.1:2000'']"
    by simp
  show ?thesis
    using Serve_read_error [OF handlers r1, of 0 "Other ''closed''"
        "[Datagram [0, 2, 98, 0] ''10.0.0.2:2000'']"]
      Serve_read_error [OF handlers r2, of 0 "Other ''reset''" "[]"] cl
    by (simp add: wrapError_def)
qed

text \<open>
  C10. With a handler registered and a socket given, the loop never faults on
  \<^verbatim>\<open>buf[1]\<close>. For a datagram of length 0 or 1 the byte inspected is not one of its bytes:
  it is the second byte of the latest earlier datagram of two bytes or more, and zero
  when there was none; the task started for the datagram is chosen by that byte.
\<close>
theorem short_datagram_reads_residue:
  assumes handlers: "rh s \<noteq> None \<or> wh s \<noteq> None"
    and reads: "\<forall>x. ReadError x \<notin> set pre"
    and short: "length p \<le> 1"
  shows "fst (Serve s (Some k) evs) \<noteq> ServePanicked
       \<and> fst (Serve s (Some k) (pre @ [Datagram p a])) = ServeWaiting
       \<and> snd (snd (Serve s (Some k) (pre @ [Datagram p a])))
           = snd (snd (Serve s (Some k) pre)) @ [switch_opcode (residual 0 pre) a p]"
proof -
  have len: "1 < length (replicate 65536 (0::byte))" by simp
  have z: "replicate 65536 (0::byte) ! 1 = 0" by simp
  from handlers have nh: "\<not> (rh s = None \<and> wh s = None)" by blast
  from Serve_loop_short [OF len reads short, of "s\<lparr>conn := Some k\<rparr>" a]
    Serve_loop_no_panic [OF len, of "s\<lparr>conn := Some k\<rparr>" evs]
  show ?thesis by (simp add: Serve_def Let_def nh z)
qed

theorem short_datagram_reads_residue_witness:
  "snd (snd (Serve single_port_server (Some 0)
      [Datagram [0, 1, 97, 0] ''10.0.0.1:2000'', Datagram [7] ''10.0.0.2:2000'']))
     = snd (snd (Serve single_port_server (Some 0) [Datagram [0, 1, 97, 0] ''10.0.0.1:2000'']))
       @ [DispatchReadRequest ''10.0.0.2:2000'' [7]]
   \<and> snd (snd (Serve single_port_server (Some 0) [Datagram [7] ''10.0.0.2:2000'']))
     = [DemuxToConn ''10.0.0.2:2000'' [7]]
   \<and> snd (snd (Serve single_port_server (Some 0) [Datagram [] ''10.0.0.2:2000'']))
     = [DemuxToConn ''10.0.0.2:2000'' []]"
proof -
  have handlers: "rh single_port_server \<noteq> None \<or> wh single_port_server \<noteq> None"
    by (simp add: single_port_server_def)
  have r1: "\<forall>x. ReadError x \<notin> set [Datagram [0, 1, 97, 0] ''10.0.0.1:2000'']" by simp
  have r0: "\<forall>x. ReadError x \<notin> set []" by simp
  have s1: "length [7::byte] \<le> 1" and s0: "length ([]::bytes) \<le> 1" by simp_all
  have e: "snd (snd (Serve single_port_server (Some 0) [])) = []"
    by (simp add: Serve_def Let_def single_port_server_def)
  show ?thesis
    using short_datagram_reads_residue [OF handlers r1 s1, of 0 "[]" "''10.0.0.2:2000''"]
      short_datagram_reads_residue [OF handlers r0 s1, of 0 "[]" "''10.0.0.2:2000''"]
      short_datagram_reads_residue [OF handlers r0 s0, of 0 "[]" "''10.0.0.2:2000''"]
      e
    by (simp add: switch_opcode_def)
qed

end
